theory Spec2Isabelle
  imports Complex_Main
begin

section \<open>Fraud-scoring engine of \<^verbatim>\<open>app/utils/fraud.py\<close>\<close>

text \<open>
  The development embeds the functions \<^verbatim>\<open>_two_years\<close>, \<^verbatim>\<open>_div\<close>, \<^verbatim>\<open>_ratios\<close>,
  \<^verbatim>\<open>beneish_score\<close>, \<^verbatim>\<open>piotroski_score\<close> and \<^verbatim>\<open>predict\<close>. Isabelle names cannot
  start with an underscore, so the private functions appear as \<open>two_years\<close>, \<open>div_py\<close>
  (plain \<open>div\<close> is HOL's division) and \<open>ratios\<close>.
\<close>

subsection \<open>Python floats\<close>

text \<open>
  A float is a finite number, one of the two infinities, or not-a-number. Finite values
  are carried as exact reals: rounding, overflow to infinity and the sign of zero are not
  represented. Every operation below follows IEEE 754 on the special values.
\<close>

datatype pyfloat = FNum real | FPosInf | FNegInf | FNaN

fun isnan :: "pyfloat \<Rightarrow> bool" where
  "isnan FNaN = True"
| "isnan _ = False"

fun isfinite :: "pyfloat \<Rightarrow> bool" where
  "isfinite (FNum a) = True"
| "isfinite _ = False"

fun fneg :: "pyfloat \<Rightarrow> pyfloat" where
  "fneg (FNum a) = FNum (- a)"
| "fneg FPosInf = FNegInf"
| "fneg FNegInf = FPosInf"
| "fneg FNaN = FNaN"

text \<open>An infinity carrying the sign of a non-zero real.\<close>

definition signed_inf :: "real \<Rightarrow> pyfloat" where
  "signed_inf a = (if 0 < a then FPosInf else FNegInf)"

fun fadd :: "pyfloat \<Rightarrow> pyfloat \<Rightarrow> pyfloat" where
  "fadd (FNum a) (FNum b) = FNum (a + b)"
| "fadd (FNum a) FPosInf = FPosInf"
| "fadd (FNum a) FNegInf = FNegInf"
| "fadd FPosInf (FNum b) = FPosInf"
| "fadd FPosInf FPosInf = FPosInf"
| "fadd FPosInf FNegInf = FNaN"
| "fadd FNegInf (FNum b) = FNegInf"
| "fadd FNegInf FNegInf = FNegInf"
| "fadd FNegInf FPosInf = FNaN"
| "fadd FNaN _ = FNaN"
| "fadd _ FNaN = FNaN"

definition fsub :: "pyfloat \<Rightarrow> pyfloat \<Rightarrow> pyfloat" where
  "fsub a b = fadd a (fneg b)"

fun fmul :: "pyfloat \<Rightarrow> pyfloat \<Rightarrow> pyfloat" where
  "fmul (FNum a) (FNum b) = FNum (a * b)"
| "fmul (FNum a) FPosInf = (if a = 0 then FNaN else signed_inf a)"
| "fmul (FNum a) FNegInf = (if a = 0 then FNaN else signed_inf (- a))"
| "fmul FPosInf (FNum b) = (if b = 0 then FNaN else signed_inf b)"
| "fmul FNegInf (FNum b) = (if b = 0 then FNaN else signed_inf (- b))"
| "fmul FPosInf FPosInf = FPosInf"
| "fmul FPosInf FNegInf = FNegInf"
| "fmul FNegInf FPosInf = FNegInf"
| "fmul FNegInf FNegInf = FPosInf"
| "fmul FNaN _ = FNaN"
| "fmul _ FNaN = FNaN"

text \<open>Comparisons: every comparison with not-a-number is false.\<close>

fun flt :: "pyfloat \<Rightarrow> pyfloat \<Rightarrow> bool" where
  "flt (FNum a) (FNum b) = (a < b)"
| "flt (FNum a) FPosInf = True"
| "flt FNegInf (FNum b) = True"
| "flt FNegInf FPosInf = True"
| "flt _ _ = False"

definition fgt :: "pyfloat \<Rightarrow> pyfloat \<Rightarrow> bool" where
  "fgt a b = flt b a"

definition feq :: "pyfloat \<Rightarrow> pyfloat \<Rightarrow> bool" where
  "feq a b = (\<not> isnan a \<and> a = b)"

definition fle :: "pyfloat \<Rightarrow> pyfloat \<Rightarrow> bool" where
  "fle a b = (flt a b \<or> feq a b)"

subsection \<open>Exceptions\<close>

datatype error =
    ZeroDivisionError
  | IndexError
  | ValueError string
  | ExternalError string

text \<open>Sequencing of computations that may raise: the first exception propagates.\<close>

definition bind :: "error + 'a \<Rightarrow> ('a \<Rightarrow> error + 'b) \<Rightarrow> error + 'b" where
  "bind m f = (case m of Inl e \<Rightarrow> Inl e | Inr v \<Rightarrow> f v)"

text \<open>
  The operator \<^verbatim>\<open>/\<close> on two Python floats. A divisor equal to zero raises
  \<^verbatim>\<open>ZeroDivisionError\<close> whatever the dividend is; otherwise the quotient is the
  IEEE one.
\<close>

fun truediv :: "pyfloat \<Rightarrow> pyfloat \<Rightarrow> error + pyfloat" where
  "truediv (FNum a) (FNum b) = (if b = 0 then Inl ZeroDivisionError else Inr (FNum (a / b)))"
| "truediv FPosInf (FNum b) = (if b = 0 then Inl ZeroDivisionError else Inr (signed_inf b))"
| "truediv FNegInf (FNum b) = (if b = 0 then Inl ZeroDivisionError else Inr (signed_inf (- b)))"
| "truediv FNaN (FNum b) = (if b = 0 then Inl ZeroDivisionError else Inr FNaN)"
| "truediv (FNum a) FPosInf = Inr (FNum 0)"
| "truediv (FNum a) FNegInf = Inr (FNum 0)"
| "truediv FPosInf FPosInf = Inr FNaN"
| "truediv FPosInf FNegInf = Inr FNaN"
| "truediv FNegInf FPosInf = Inr FNaN"
| "truediv FNegInf FNegInf = Inr FNaN"
| "truediv FNaN FPosInf = Inr FNaN"
| "truediv FNaN FNegInf = Inr FNaN"
| "truediv _ FNaN = Inr FNaN"

subsection \<open>Safe division\<close>

text \<open>
  \<^verbatim>\<open>
  def _div(n, d, fallback=0.0):
      try:
          if d == 0 or np.isnan(d):
              return fallback
          return n / d
      except:
          return fallback
  \<close>
  \<open>div_try\<close> is the body of the \<^verbatim>\<open>try\<close> block, \<open>div_py\<close> adds the handler, which
  catches every exception.
\<close>

definition div_try :: "pyfloat \<Rightarrow> pyfloat \<Rightarrow> pyfloat \<Rightarrow> error + pyfloat" where
  "div_try n d fallback =
     (if feq d (FNum 0) \<or> isnan d then Inr fallback else truediv n d)"

definition div_py :: "pyfloat \<Rightarrow> pyfloat \<Rightarrow> pyfloat \<Rightarrow> pyfloat" where
  "div_py n d fallback =
     (case div_try n d fallback of Inl e \<Rightarrow> fallback | Inr v \<Rightarrow> v)"

subsection \<open>Statement rows and the feature vector\<close>

text \<open>
  A cell of the \<^verbatim>\<open>date\<close> column holds the text of a date, or a number where the
  date is missing. A row of the frame is its date cell and its numeric line items, by
  column name; \<open>None\<close> means that the frame has no such column. A frame is the list of
  its rows, oldest first once sorted.
\<close>

datatype cell = Str string | Num pyfloat

record row =
  date_cell :: cell
  cells :: "string \<rightharpoonup> pyfloat"

type_synonym frame = "row list"

text \<open>\<^verbatim>\<open>df.iloc[-k]\<close> for \<open>k = 1, 2\<close>: out of range raises \<^verbatim>\<open>IndexError\<close>.\<close>

definition iloc_neg :: "'a list \<Rightarrow> nat \<Rightarrow> error + 'a" where
  "iloc_neg df k =
     (if 0 < k \<and> k \<le> length df then Inr (df ! (length df - k)) else Inl IndexError)"

text \<open>\<^verbatim>\<open>g = lambda row, k: float(row.get(k, 0))\<close>\<close>

definition g :: "row \<Rightarrow> string \<Rightarrow> pyfloat" where
  "g r k = (case cells r k of None \<Rightarrow> FNum 0 | Some v \<Rightarrow> v)"

record features =
  DSRI :: pyfloat
  GMI :: pyfloat
  AQI :: pyfloat
  SGI :: pyfloat
  DEPI :: pyfloat
  SGAI :: pyfloat
  LVGI :: pyfloat
  TATA :: pyfloat
  leverage :: pyfloat
  profitability :: pyfloat
  liquidity :: pyfloat
  EBIT_to_assets :: pyfloat
  soft_asset_ratio :: pyfloat
  ROA :: pyfloat
  Prev_ROA :: pyfloat
  CFO :: pyfloat
  GrossMargin :: pyfloat
  Prev_GM :: pyfloat
  AssetTurn :: pyfloat
  Prev_AT :: pyfloat
  CurrRatio :: pyfloat
  Prev_CR :: pyfloat
  Shares :: pyfloat
  Prev_Shares :: pyfloat
  Prev_leverage :: pyfloat

subsection \<open>The Ratio Engine\<close>

text \<open>
  \<^verbatim>\<open>_ratios(df2)\<close>. The arguments of every call of \<^verbatim>\<open>_div\<close> are evaluated before
  the call, outside its \<^verbatim>\<open>try\<close> block: the twelve bare divisions of the entries
  DSRI, GMI, AQI, DEPI, SGAI and LVGI are bound here in the order in which the dictionary
  display evaluates them, and the first one that raises ends the function. No other
  expression of the display can raise.
\<close>

definition ratios :: "frame \<Rightarrow> error + features" where
  "ratios df2 =
     bind (iloc_neg df2 1) (\<lambda>c.
     bind (iloc_neg df2 2) (\<lambda>p.
       let rectC = g c ''netReceivables''; rectP = g p ''netReceivables'';
           saleC = g c ''revenue''; saleP = g p ''revenue'';
           cogsC = g c ''costOfRevenue''; cogsP = g p ''costOfRevenue'';
           actC = g c ''totalCurrentAssets''; actP = g p ''totalCurrentAssets'';
           ppeC = g c ''propertyPlantEquipmentNet''; ppeP = g p ''propertyPlantEquipmentNet'';
           atC = g c ''totalAssets''; atP = g p ''totalAssets'';
           dpC = g c ''depreciationAndAmortization''; dpP = g p ''depreciationAndAmortization'';
           niC = g c ''netIncome''; niP = g p ''netIncome'';
           ltC = g c ''totalLiabilities''; ltP = g p ''totalLiabilities'';
           lctC = g c ''totalCurrentLiabilities'';
           ebitC = (if cells c ''ebit'' \<noteq> None then g c ''ebit'' else niC)
       in
       bind (truediv rectC saleC) (\<lambda>dsri_n.
       bind (truediv rectP saleP) (\<lambda>dsri_d.
       bind (truediv (fsub saleP cogsP) saleP) (\<lambda>gmi_n.
       bind (truediv (fsub saleC cogsC) saleC) (\<lambda>gmi_d.
       bind (truediv (fadd actC ppeC) atC) (\<lambda>aqi_c.
       bind (truediv (fadd actP ppeP) atP) (\<lambda>aqi_p.
       bind (truediv dpP (fadd dpP ppeP)) (\<lambda>depi_n.
       bind (truediv dpC (fadd dpC ppeC)) (\<lambda>depi_d.
       bind (truediv (fsub (fsub saleC cogsC) niC) saleC) (\<lambda>sgai_n.
       bind (truediv (fsub (fsub saleP cogsP) niP) saleP) (\<lambda>sgai_d.
       bind (truediv ltC atC) (\<lambda>lvgi_n.
       bind (truediv ltP atP) (\<lambda>lvgi_d.
       Inr \<lparr>
         DSRI = div_py dsri_n dsri_d (FNum 0),
         GMI = div_py gmi_n gmi_d (FNum 0),
         AQI = div_py (fsub (FNum 1) aqi_c) (fsub (FNum 1) aqi_p) (FNum 0),
         SGI = div_py saleC saleP (FNum 0),
         DEPI = div_py depi_n depi_d (FNum 0),
         SGAI = div_py sgai_n sgai_d (FNum 0),
         LVGI = div_py lvgi_n lvgi_d (FNum 0),
         TATA = div_py (fsub (fsub actC lctC) dpC) atC (FNum 0),
         leverage = div_py ltC atC (FNum 0),
         profitability = div_py niC atC (FNum 0),
         liquidity = div_py actC lctC (FNum 0),
         EBIT_to_assets = div_py ebitC atC (FNum 0),
         soft_asset_ratio = div_py (fsub actC ppeC) atC (FNum 0),
         ROA = div_py niC atC (FNum 0),
         Prev_ROA = div_py niP atP (FNum 0),
         CFO = div_py (g c ''operatingCashFlow'') atC (FNum 0),
         GrossMargin = div_py (fsub saleC cogsC) saleC (FNum 0),
         Prev_GM = div_py (fsub saleP cogsP) saleP (FNum 0),
         AssetTurn = div_py saleC atC (FNum 0),
         Prev_AT = div_py saleP atP (FNum 0),
         CurrRatio = div_py actC lctC (FNum 0),
         Prev_CR = div_py actP (g p ''totalCurrentLiabilities'') (FNum 0),
         Shares = g c ''weightedAverageShsOut'',
         Prev_Shares = g p ''weightedAverageShsOut'',
         Prev_leverage = div_py ltP atP (FNum 0)
       \<rparr>))))))))))))))"

subsection \<open>Rule scorers\<close>

text \<open>
  \<^verbatim>\<open>beneish_score(r)\<close>: the sum is evaluated from the left, as Python does.
\<close>

definition beneish_score :: "features \<Rightarrow> pyfloat \<times> bool" where
  "beneish_score r =
     (let m =
        fadd (fsub (fadd (fadd (fadd (fadd (fadd
          (fneg (FNum 4.84))
          (fmul (FNum 0.92) (DSRI r)))
          (fmul (FNum 0.528) (GMI r)))
          (fmul (FNum 0.404) (AQI r)))
          (fmul (FNum 0.892) (SGI r)))
          (fmul (FNum 0.115) (DEPI r)))
          (fmul (FNum 0.172) (SGAI r)))
          (fmul (FNum 4.679) (TATA r));
          flag = fgt m (fneg (FNum 2.22))
      in (m, flag))"

text \<open>
  \<^verbatim>\<open>piotroski_score(r)\<close>: nine Booleans are added to a counter that starts at 0, a
  true one counting 1.
\<close>

definition piotroski_score :: "features \<Rightarrow> int \<times> bool" where
  "piotroski_score r =
     (let roa_cur = ROA r;
          roa_prev = Prev_ROA r;
          cfo = CFO r;
          accrual = fgt cfo roa_cur;
          gm_cur = GrossMargin r;
          gm_prev = Prev_GM r;
          at_cur = AssetTurn r;
          at_prev = Prev_AT r;
          lev_cur = leverage r;
          lev_prev = Prev_leverage r;
          cr_cur = CurrRatio r;
          cr_prev = Prev_CR r;
          share_change = fle (Shares r) (Prev_Shares r);
          score = 0;
          score = score + of_bool (fgt roa_cur (FNum 0));
          score = score + of_bool (fgt cfo (FNum 0));
          score = score + of_bool (fgt (fsub roa_cur roa_prev) (FNum 0));
          score = score + of_bool accrual;
          score = score + of_bool (flt lev_cur lev_prev);
          score = score + of_bool (fgt cr_cur cr_prev);
          score = score + of_bool (fgt (fsub gm_cur gm_prev) (FNum 0));
          score = score + of_bool (fgt (fsub at_cur at_prev) (FNum 0));
          score = score + of_bool share_change;
          flag = (score \<le> 3)
      in (score, flag))"

subsection \<open>The statement provider\<close>

text \<open>
  An endpoint of the statement API answers with a list of yearly records, most recent
  first. A record carries its date and its numeric line items; a \<^verbatim>\<open>null\<close> item is
  the value not-a-number, which is what the data frame makes of it.
\<close>

record stmt =
  date :: string
  items :: "string \<rightharpoonup> pyfloat"

text \<open>
  \<^verbatim>\<open>pd.DataFrame(recs)\<close> has a column for every key that occurs in some record, and
  not-a-number where a record lacks the key. \<^verbatim>\<open>pd.concat(..., axis=1)\<close> aligns the
  three frames on the row number, so a row beyond the end of a shorter frame is filled
  with not-a-number as well.
\<close>

definition has_col :: "stmt list \<Rightarrow> string \<Rightarrow> bool" where
  "has_col recs k = list_ex (\<lambda>r. items r k \<noteq> None) recs"

definition frame_cell :: "stmt list \<Rightarrow> nat \<Rightarrow> string \<Rightarrow> pyfloat" where
  "frame_cell recs i k =
     (if i < length recs then (case items (recs ! i) k of None \<Rightarrow> FNaN | Some v \<Rightarrow> v)
      else FNaN)"

text \<open>
  \<^verbatim>\<open>df.loc[:, ~df.columns.duplicated()]\<close> keeps the first column of every name:
  the income statement's before the balance sheet's before the cash-flow statement's.
  The \<^verbatim>\<open>date\<close> column that survives is the income statement's.
\<close>

definition merged_row :: "stmt list \<Rightarrow> stmt list \<Rightarrow> stmt list \<Rightarrow> nat \<Rightarrow> row" where
  "merged_row inc bal cf i =
     \<lparr> date_cell = (if i < length inc then Str (date (inc ! i)) else Num FNaN),
       cells = (\<lambda>k.
         if has_col inc k then Some (frame_cell inc i k)
         else if has_col bal k then Some (frame_cell bal i k)
         else if has_col cf k then Some (frame_cell cf i k)
         else None) \<rparr>"

definition concat_dedup :: "stmt list \<Rightarrow> stmt list \<Rightarrow> stmt list \<Rightarrow> frame" where
  "concat_dedup inc bal cf =
     map (merged_row inc bal cf) [0 ..< max (length inc) (max (length bal) (length cf))]"

text \<open>Python compares strings by code point, position by position.\<close>

fun str_lt :: "string \<Rightarrow> string \<Rightarrow> bool" where
  "str_lt [] [] = False"
| "str_lt [] (y # ys) = True"
| "str_lt (x # xs) [] = False"
| "str_lt (x # xs) (y # ys) =
     ((of_char x :: nat) < of_char y \<or> (x = y \<and> str_lt xs ys))"

fun is_str :: "cell \<Rightarrow> bool" where
  "is_str (Str s) = True"
| "is_str (Num v) = False"

fun date_le :: "cell \<Rightarrow> cell \<Rightarrow> bool" where
  "date_le (Str a) (Str b) = (\<not> str_lt b a)"
| "date_le _ _ = True"

text \<open>
  \<^verbatim>\<open>sort_values("date")\<close>: ascending, the rows without a date last. Rows of equal
  date keep their order, as the insertion sort used on short arrays leaves them.
\<close>

fun insort_date :: "row \<Rightarrow> frame \<Rightarrow> frame" where
  "insort_date r [] = [r]"
| "insort_date r (x # xs) =
     (if date_le (date_cell r) (date_cell x) then r # x # xs else x # insort_date r xs)"

definition sort_values_date :: "frame \<Rightarrow> frame" where
  "sort_values_date df =
     foldr insort_date (filter (\<lambda>r. is_str (date_cell r)) df) []
     @ filter (\<lambda>r. \<not> is_str (date_cell r)) df"

text \<open>\<^verbatim>\<open>fillna(0)\<close> replaces not-a-number, and nothing else, by 0.\<close>

definition fill0 :: "pyfloat \<Rightarrow> pyfloat" where
  "fill0 v = (if isnan v then FNum 0 else v)"

fun fill0_cell :: "cell \<Rightarrow> cell" where
  "fill0_cell (Str s) = Str s"
| "fill0_cell (Num v) = Num (fill0 v)"

definition fillna0 :: "frame \<Rightarrow> frame" where
  "fillna0 df =
     map (\<lambda>r. \<lparr> date_cell = fill0_cell (date_cell r),
                cells = map_option fill0 \<circ> cells r \<rparr>) df"

text \<open>\<^verbatim>\<open>df.tail(n)\<close>\<close>

definition tail :: "nat \<Rightarrow> 'a list \<Rightarrow> 'a list" where
  "tail n df = drop (length df - n) df"

text \<open>
  The collaborators outside the module: the three HTTP requests of \<^verbatim>\<open>_two_years\<close>
  (endpoint and ticker to the decoded answer), and the pretrained classifier with its
  explainer. Each may raise.
\<close>

record 'x env =
  http_get_json :: "string \<Rightarrow> string \<Rightarrow> error + stmt list"
  predict_proba :: "features \<Rightarrow> error + pyfloat"
  tree_explainer :: "features \<Rightarrow> error + 'x"

text \<open>
  \<^verbatim>\<open>_two_years(tkr)\<close>. The \<^verbatim>\<open>lru_cache\<close> decorator memoises the result per
  ticker; with the provider a function of the ticker it does not change what is returned.
\<close>

definition two_years :: "'x env \<Rightarrow> string \<Rightarrow> error + frame option" where
  "two_years env tkr =
     bind (http_get_json env ''income-statement'' tkr) (\<lambda>inc.
     bind (http_get_json env ''balance-sheet-statement'' tkr) (\<lambda>bal.
     bind (http_get_json env ''cash-flow-statement'' tkr) (\<lambda>cf.
       if inc = [] \<or> bal = [] \<or> cf = [] then Inr None
       else
         let df = concat_dedup inc bal cf;
             df = fillna0 (sort_values_date df)
         in Inr (if 2 \<le> length df then Some (tail 2 df) else None))))"

subsection \<open>The dispatcher\<close>

datatype extra = MScore pyfloat bool | FScore int bool

record 'x score_result =
  prob :: "pyfloat option"
  shap :: "'x option"
  feats :: features
  extra :: "extra option"

text \<open>
  The body of \<^verbatim>\<open>predict(tkr, method)\<close>, with the Ratio Engine it calls as its first
  argument. The one-row frame \<^verbatim>\<open>feats\<close> and its row \<^verbatim>\<open>r = feats.iloc[0]\<close> are the
  same feature vector.
\<close>

definition predict_with ::
  "(frame \<Rightarrow> error + features) \<Rightarrow> 'x env \<Rightarrow> string \<Rightarrow> string
     \<Rightarrow> error + 'x score_result option" where
  "predict_with engine env tkr method =
     bind (two_years env tkr) (\<lambda>df2.
       case df2 of
         None \<Rightarrow> Inr None
       | Some df2 \<Rightarrow>
           bind (engine df2) (\<lambda>feats.
             let r = feats in
             if method = ''CatBoost'' then
               bind (predict_proba env feats) (\<lambda>prob.
               bind (tree_explainer env feats) (\<lambda>shap_vals.
                 Inr (Some \<lparr> prob = Some prob, shap = Some shap_vals,
                             feats = feats, extra = None \<rparr>)))
             else if method = ''Beneish M-Score'' then
               (case beneish_score r of (m, flag) \<Rightarrow>
                 Inr (Some \<lparr> prob = None, shap = None,
                             feats = feats, extra = Some (MScore m flag) \<rparr>))
             else if method = ''Piotroski F-Score'' then
               (case piotroski_score r of (fscore, flag) \<Rightarrow>
                 Inr (Some \<lparr> prob = None, shap = None,
                             feats = feats, extra = Some (FScore fscore flag) \<rparr>))
             else Inl (ValueError ''Unknown method'')))"

text \<open>
  \<^verbatim>\<open>def predict(tkr: str, method: str = "CatBoost")\<close>: \<open>None\<close> is a call that leaves
  the second argument out.
\<close>

definition predict :: "'x env \<Rightarrow> string \<Rightarrow> string option \<Rightarrow> error + 'x score_result option" where
  "predict env tkr method =
     predict_with ratios env tkr (case method of None \<Rightarrow> ''CatBoost'' | Some m \<Rightarrow> m)"

subsection \<open>Reference definitions\<close>

text \<open>
  The nine binary tests of the Piotroski F-Score, as the specification lists them.
\<close>

definition piotroski_tests :: "features \<Rightarrow> bool list" where
  "piotroski_tests r =
     [ fgt (ROA r) (FNum 0),
       fgt (CFO r) (FNum 0),
       fgt (fsub (ROA r) (Prev_ROA r)) (FNum 0),
       fgt (CFO r) (ROA r),
       flt (leverage r) (Prev_leverage r),
       fgt (CurrRatio r) (Prev_CR r),
       fgt (fsub (GrossMargin r) (Prev_GM r)) (FNum 0),
       fgt (fsub (AssetTurn r) (Prev_AT r)) (FNum 0),
       fle (Shares r) (Prev_Shares r) ]"










text \<open>The method that a call of \<^verbatim>\<open>predict\<close> selects.\<close>

definition method_of :: "string option \<Rightarrow> string" where
  "method_of method = (case method of None \<Rightarrow> ''CatBoost'' | Some m \<Rightarrow> m)"

subsection \<open>Sample data\<close>


definition prior_period :: row where
  "prior_period =
     \<lparr> date_cell = Str ''2022-12-31'',
       cells = [''revenue'' \<mapsto> FNum 900, ''costOfRevenue'' \<mapsto> FNum 550,
                ''netReceivables'' \<mapsto> FNum 80, ''totalCurrentAssets'' \<mapsto> FNum 280,
                ''propertyPlantEquipmentNet'' \<mapsto> FNum 210, ''totalAssets'' \<mapsto> FNum 750,
                ''depreciationAndAmortization'' \<mapsto> FNum 45, ''netIncome'' \<mapsto> FNum 100,
                ''totalLiabilities'' \<mapsto> FNum 380, ''totalCurrentLiabilities'' \<mapsto> FNum 140,
                ''operatingCashFlow'' \<mapsto> FNum 110,
                ''weightedAverageShsOut'' \<mapsto> FNum 1000] \<rparr>"


text \<open>The feature vector of the scenario.\<close>

definition scenario_features :: features where
  "scenario_features =
     \<lparr> DSRI = FNum (9 / 8), GMI = FNum (35 / 36), AQI = FNum (225 / 208),
       SGI = FNum (10 / 9), DEPI = FNum (15 / 17), SGAI = FNum (126 / 125),
       LVGI = FNum (75 / 76), TATA = FNum (1 / 8), leverage = FNum (1 / 2),
       profitability = FNum (3 / 20), liquidity = FNum 2,
       EBIT_to_assets = FNum (3 / 20), soft_asset_ratio = FNum (1 / 8),
       ROA = FNum (3 / 20), Prev_ROA = FNum (2 / 15), CFO = FNum (7 / 40),
       GrossMargin = FNum (2 / 5), Prev_GM = FNum (7 / 18),
       AssetTurn = FNum (5 / 4), Prev_AT = FNum (6 / 5),
       CurrRatio = FNum 2, Prev_CR = FNum 2, Shares = FNum 1000,
       Prev_Shares = FNum 1000, Prev_leverage = FNum (38 / 75) \<rparr>"

text \<open>The same company in a year without revenue.\<close>

definition no_revenue_period :: row where
  "no_revenue_period =
     \<lparr> date_cell = Str ''2023-12-31'',
       cells = [''revenue'' \<mapsto> FNum 0, ''costOfRevenue'' \<mapsto> FNum 0,
                ''netReceivables'' \<mapsto> FNum 100, ''totalCurrentAssets'' \<mapsto> FNum 300,
                ''propertyPlantEquipmentNet'' \<mapsto> FNum 200, ''totalAssets'' \<mapsto> FNum 800,
                ''depreciationAndAmortization'' \<mapsto> FNum 50, ''netIncome'' \<mapsto> FNum (- 120),
                ''totalLiabilities'' \<mapsto> FNum 400, ''totalCurrentLiabilities'' \<mapsto> FNum 150,
                ''operatingCashFlow'' \<mapsto> FNum (- 90),
                ''weightedAverageShsOut'' \<mapsto> FNum 1000] \<rparr>"

text \<open>
  A provider that knows the scenario's company as \<^verbatim>\<open>ACME\<close>, a company listed for one
  fiscal year as \<^verbatim>\<open>NEWCO\<close>, and nothing else; and a classifier that answers 1/4
  with an empty attribution.
\<close>

definition acme_income :: "stmt list" where
  "acme_income =
     [ \<lparr> date = ''2023-12-31'',
         items = [''revenue'' \<mapsto> FNum 1000, ''costOfRevenue'' \<mapsto> FNum 600,
                  ''netIncome'' \<mapsto> FNum 120, ''depreciationAndAmortization'' \<mapsto> FNum 50,
                  ''weightedAverageShsOut'' \<mapsto> FNum 1000] \<rparr>,
       \<lparr> date = ''2022-12-31'',
         items = [''revenue'' \<mapsto> FNum 900, ''costOfRevenue'' \<mapsto> FNum 550,
                  ''netIncome'' \<mapsto> FNum 100, ''depreciationAndAmortization'' \<mapsto> FNum 45,
                  ''weightedAverageShsOut'' \<mapsto> FNum 1000] \<rparr> ]"

definition acme_balance :: "stmt list" where
  "acme_balance =
     [ \<lparr> date = ''2023-12-31'',
         items = [''netReceivables'' \<mapsto> FNum 100, ''totalCurrentAssets'' \<mapsto> FNum 300,
                  ''propertyPlantEquipmentNet'' \<mapsto> FNum 200, ''totalAssets'' \<mapsto> FNum 800,
                  ''totalLiabilities'' \<mapsto> FNum 400,
                  ''totalCurrentLiabilities'' \<mapsto> FNum 150] \<rparr>,
       \<lparr> date = ''2022-12-31'',
         items = [''netReceivables'' \<mapsto> FNum 80, ''totalCurrentAssets'' \<mapsto> FNum 280,
                  ''propertyPlantEquipmentNet'' \<mapsto> FNum 210, ''totalAssets'' \<mapsto> FNum 750,
                  ''totalLiabilities'' \<mapsto> FNum 380,
                  ''totalCurrentLiabilities'' \<mapsto> FNum 140] \<rparr> ]"

definition acme_cash_flow :: "stmt list" where
  "acme_cash_flow =
     [ \<lparr> date = ''2023-12-31'',
         items = [''netIncome'' \<mapsto> FNum 120, ''operatingCashFlow'' \<mapsto> FNum 140] \<rparr>,
       \<lparr> date = ''2022-12-31'',
         items = [''netIncome'' \<mapsto> FNum 100, ''operatingCashFlow'' \<mapsto> FNum 110] \<rparr> ]"

definition sample_env :: "(pyfloat list) env" where
  "sample_env =
     \<lparr> http_get_json = (\<lambda>ep tkr.
         if tkr = ''ACME'' then
           (if ep = ''income-statement'' then Inr acme_income
            else if ep = ''balance-sheet-statement'' then Inr acme_balance
            else Inr acme_cash_flow)
         else if tkr = ''NEWCO'' then
           (if ep = ''income-statement'' then Inr (take 1 acme_income)
            else if ep = ''balance-sheet-statement'' then Inr (take 1 acme_balance)
            else Inr (take 1 acme_cash_flow))
         else Inr []),
       predict_proba = (\<lambda>fv. Inr (FNum (1 / 4))),
       tree_explainer = (\<lambda>fv. Inr []) \<rparr>"

section \<open>Properties\<close>

subsection \<open>Safe division\<close>

lemma feq_zero: "feq d (FNum 0) = (d = FNum 0)"
  by (cases d) (auto simp: feq_def)

lemma isnan_iff: "isnan d = (d = FNaN)"
  by (cases d) auto

lemma div_py_fallback: "d = FNum 0 \<or> d = FNaN \<Longrightarrow> div_py n d f = f"
  by (auto simp: div_py_def div_try_def feq_def)

lemma div_py_quotient:
  "d \<noteq> FNum 0 \<Longrightarrow> d \<noteq> FNaN \<Longrightarrow> truediv n d = Inr (div_py n d f)"
  by (cases n; cases d) (auto simp: div_py_def div_try_def feq_def)

text \<open>
  Claim C2 says that \<^verbatim>\<open>_div(n, d, f)\<close> returns \<open>f\<close> for every denominator that is
  0, not-a-number or otherwise not finite. The guard of the code tests \<^verbatim>\<open>d == 0\<close> and
  \<^verbatim>\<open>np.isnan(d)\<close> only: with \<open>n = 1\<close>, \<open>d = +\<infinity>\<close> and \<open>f = 5\<close> the
  denominator is not finite, and the result is the quotient 0, not the fallback 5.
\<close>

theorem div_py_infinite_denominator_counterexample:
  "\<not> isfinite FPosInf \<and>
   div_py (FNum 1) FPosInf (FNum 5) = FNum 0 \<and>
   div_py (FNum 1) FPosInf (FNum 5) \<noteq> FNum 5"
  by (simp add: div_py_def div_try_def feq_def)

text \<open>
  Claim C2, amended: \<^verbatim>\<open>_div(n, d, f)\<close> returns \<open>f\<close> whenever \<open>d\<close> is 0 or
  not-a-number, and the quotient \<^verbatim>\<open>n / d\<close> otherwise; this includes an infinite
  \<open>d\<close>, where the quotient of a finite \<open>n\<close> is 0. The handler returns \<open>f\<close> for any
  exception, and on floats the guarded body raises none: it always returns the value
  that \<^verbatim>\<open>_div\<close> returns.
\<close>

theorem div_py_zero_nan_fallback:
  "(d = FNum 0 \<or> d = FNaN \<longrightarrow> div_py n d f = f) \<and>
   (d \<noteq> FNum 0 \<and> d \<noteq> FNaN \<longrightarrow> truediv n d = Inr (div_py n d f)) \<and>
   (isfinite n \<and> (d = FPosInf \<or> d = FNegInf) \<longrightarrow> div_py n d f = FNum 0) \<and>
   div_try n d f = Inr (div_py n d f)"
  by (cases n; cases d) (auto simp: div_py_def div_try_def feq_def)

text \<open>
  The amended claim C2 at the denominators 0, not-a-number, 3 and \<open>+\<infinity>\<close>, with
  numerator 6 and fallback 5.
\<close>

theorem div_py_zero_nan_fallback_witness:
  "div_py (FNum 6) (FNum 0) (FNum 5) = FNum 5 \<and>
   div_py (FNum 6) FNaN (FNum 5) = FNum 5 \<and>
   div_py (FNum 6) (FNum 3) (FNum 5) = FNum 2 \<and>
   div_py (FNum 6) FPosInf (FNum 5) = FNum 0"
proof -
  have a: "div_py (FNum 6) (FNum 0) (FNum 5) = FNum 5"
    using div_py_zero_nan_fallback [of "FNum 0" "FNum 6" "FNum 5"] by blast
  have b: "div_py (FNum 6) FNaN (FNum 5) = FNum 5"
    using div_py_zero_nan_fallback [of "FNaN" "FNum 6" "FNum 5"] by blast
  have "FNum 3 \<noteq> FNum 0 \<and> FNum 3 \<noteq> FNaN
          \<longrightarrow> truediv (FNum 6) (FNum 3) = Inr (div_py (FNum 6) (FNum 3) (FNum 5))"
    using div_py_zero_nan_fallback [of "FNum 3" "FNum 6" "FNum 5"] by blast
  then have c: "div_py (FNum 6) (FNum 3) (FNum 5) = FNum 2"
    by simp
  have "isfinite (FNum 6) \<and> (FPosInf = FPosInf \<or> FPosInf = FNegInf)
          \<longrightarrow> div_py (FNum 6) FPosInf (FNum 5) = FNum 0"
    using div_py_zero_nan_fallback [of "FPosInf" "FNum 6" "FNum 5"] by blast
  then have d: "div_py (FNum 6) FPosInf (FNum 5) = FNum 0"
    by simp
  show ?thesis using a b c d by blast
qed

subsection \<open>The Ratio Engine\<close>

lemma truediv_zero: "truediv x (FNum 0) = Inl ZeroDivisionError"
  by (cases x) simp_all

text \<open>
  Whenever the revenue of the current year is 0, the first bare division of the
  dictionary display, \<^verbatim>\<open>rectC / saleC\<close>, raises, and so does the engine.
\<close>

lemma ratios_zero_revenue:
  assumes "2 \<le> length df2" and "g (df2 ! (length df2 - 1)) ''revenue'' = FNum 0"
  shows "ratios df2 = Inl ZeroDivisionError"
  using assms by (simp add: ratios_def iloc_neg_def bind_def Let_def truediv_zero)


text \<open>
  Claim C1 says that \<^verbatim>\<open>_ratios\<close> never fails and that every field of its result is a
  finite float, also when a denominator such as the revenue is 0. The code at a pair of
  fiscal years whose current year has no revenue: the division \<^verbatim>\<open>rectC / saleC\<close> is
  evaluated before \<^verbatim>\<open>_div\<close> is entered and raises \<^verbatim>\<open>ZeroDivisionError\<close>, which
  nothing catches, so no feature vector is returned.
\<close>

theorem ratios_raises_without_revenue:
  "ratios [prior_period, no_revenue_period] = Inl ZeroDivisionError"
  by code_simp


subsection \<open>Rule scorers\<close>



lemma count_true_Cons:
  "int (length (filter (\<lambda>b. b) (b # bs))) = of_bool b + int (length (filter (\<lambda>b. b) bs))"
  by simp

text \<open>
  Claim C4: for every feature vector the score of \<^verbatim>\<open>piotroski_score\<close> is the number
  of the nine tests that hold, an integer between 0 and 9, and its flag is true exactly
  when the score is at most 3.
\<close>

theorem piotroski_score_counts_tests:
  "fst (piotroski_score r) = int (length (filter (\<lambda>b. b) (piotroski_tests r))) \<and>
   0 \<le> fst (piotroski_score r) \<and> fst (piotroski_score r) \<le> 9 \<and>
   snd (piotroski_score r) = (fst (piotroski_score r) \<le> 3)"
proof -
  have cnt: "fst (piotroski_score r) = int (length (filter (\<lambda>b. b) (piotroski_tests r)))"
    unfolding piotroski_score_def piotroski_tests_def Let_def fst_conv count_true_Cons
    by simp
  have "length (filter (\<lambda>b. b) (piotroski_tests r)) \<le> length (piotroski_tests r)"
    by (rule length_filter_le)
  also have "length (piotroski_tests r) = 9"
    by (simp add: piotroski_tests_def)
  finally have ub: "fst (piotroski_score r) \<le> 9"
    using cnt by simp
  have lb: "0 \<le> fst (piotroski_score r)"
    using cnt by simp
  have fl: "snd (piotroski_score r) = (fst (piotroski_score r) \<le> 3)"
    by (simp add: piotroski_score_def Let_def)
  show ?thesis using cnt ub lb fl by blast
qed

subsection \<open>The dispatcher\<close>

text \<open>
  Claim C10: a call of \<^verbatim>\<open>predict\<close> that leaves the method out returns what the call
  with the method \<^verbatim>\<open>"CatBoost"\<close> returns.
\<close>

theorem predict_default_method:
  "predict env tkr None = predict env tkr (Some ''CatBoost'')"
  by (simp add: predict_def)

subsection \<open>Insufficient history\<close>

lemma length_concat_dedup:
  "length (concat_dedup inc bal cf) = max (length inc) (max (length bal) (length cf))"
  by (simp add: concat_dedup_def)

lemma length_insort_date: "length (insort_date r xs) = Suc (length xs)"
  by (induction xs) simp_all

lemma length_foldr_insort: "length (foldr insort_date xs []) = length xs"
  by (induction xs) (simp_all add: length_insort_date)

lemma length_sort_values_date: "length (sort_values_date df) = length df"
  by (simp add: sort_values_date_def length_foldr_insort sum_length_filter_compl)

lemma length_fillna0: "length (fillna0 df) = length df"
  by (simp add: fillna0_def)

text \<open>
  What \<^verbatim>\<open>_two_years\<close> returns once the three requests have answered: a frame exactly
  when no answer is empty and the longest has two records or more.
\<close>

lemma two_years_fetched:
  assumes "http_get_json env ''income-statement'' tkr = Inr inc"
      and "http_get_json env ''balance-sheet-statement'' tkr = Inr bal"
      and "http_get_json env ''cash-flow-statement'' tkr = Inr cf"
  shows "two_years env tkr =
     (if inc = [] \<or> bal = [] \<or> cf = [] then Inr None
      else if 2 \<le> max (length inc) (max (length bal) (length cf))
        then Inr (Some (tail 2 (fillna0 (sort_values_date (concat_dedup inc bal cf)))))
        else Inr None)"
  using assms
  by (simp add: two_years_def bind_def Let_def length_fillna0 length_sort_values_date
        length_concat_dedup)





lemma sample_env_acme:
  "http_get_json sample_env ''income-statement'' ''ACME'' = Inr acme_income"
  "http_get_json sample_env ''balance-sheet-statement'' ''ACME'' = Inr acme_balance"
  "http_get_json sample_env ''cash-flow-statement'' ''ACME'' = Inr acme_cash_flow"
  by (simp_all add: sample_env_def)



subsection \<open>Orientation of the year-over-year indices\<close>




subsection \<open>Shape of the result and unknown methods\<close>

lemma predict_Some_cases:
  assumes "predict env tkr method = Inr (Some res)"
  shows "\<exists>df2 fv. two_years env tkr = Inr (Some df2) \<and> ratios df2 = Inr fv \<and>
     ((method_of method = ''CatBoost'' \<and>
         (\<exists>p s. res = \<lparr> prob = Some p, shap = Some s, feats = fv, extra = None \<rparr>)) \<or>
      (method_of method = ''Beneish M-Score'' \<and>
         (\<exists>m flag. res = \<lparr> prob = None, shap = None, feats = fv,
                             extra = Some (MScore m flag) \<rparr>)) \<or>
      (method_of method = ''Piotroski F-Score'' \<and>
         (\<exists>n flag. res = \<lparr> prob = None, shap = None, feats = fv,
                             extra = Some (FScore n flag) \<rparr>)))"
  using assms
  by (auto simp: predict_def predict_with_def bind_def Let_def method_of_def
        split: sum.splits option.splits if_splits prod.splits)

lemma predict_rule_methods:
  assumes "two_years env tkr = Inr (Some df2)" and "ratios df2 = Inr fv"
  shows "predict env tkr (Some ''Beneish M-Score'') =
           Inr (Some \<lparr> prob = None, shap = None, feats = fv,
                  extra = Some (MScore (fst (beneish_score fv)) (snd (beneish_score fv))) \<rparr>)"
    and "predict env tkr (Some ''Piotroski F-Score'') =
           Inr (Some \<lparr> prob = None, shap = None, feats = fv,
                  extra = Some (FScore (fst (piotroski_score fv)) (snd (piotroski_score fv))) \<rparr>)"
  using assms
  by (simp_all add: predict_def predict_with_def bind_def Let_def split: prod.splits)

lemma predict_classifier:
  assumes "two_years env tkr = Inr (Some df2)" and "ratios df2 = Inr fv"
      and "predict_proba env fv = Inr p" and "tree_explainer env fv = Inr s"
  shows "predict env tkr (Some ''CatBoost'') =
           Inr (Some \<lparr> prob = Some p, shap = Some s, feats = fv, extra = None \<rparr>)"
  using assms by (simp add: predict_def predict_with_def bind_def Let_def)

lemma beneish_scenario:
  "beneish_score scenario_features = (FNum (- (2686277239 / 1989000000)), True)"
  by code_simp

lemma piotroski_scenario: "piotroski_score scenario_features = (8, False)"
  by code_simp

text \<open>
  Claim C8: a result returned by \<^verbatim>\<open>predict\<close> has its probability and its attribution
  exactly when the method is the classifier, and its extra payload exactly when the
  method is one of the two rule methods; it carries the feature vector that the Ratio
  Engine computed from the two fiscal years. For that ticker each rule method returns a
  result made of this feature vector and the scorer's score and flag, with no
  probability and no attribution, and the classifier method returns one made of this
  feature vector and the classifier's probability and attribution, with no extra payload,
  whenever the classifier and its explainer answer.
\<close>

theorem predict_result_shape:
  assumes "predict env tkr method = Inr (Some res)"
  shows "((prob res \<noteq> None) = (method_of method = ''CatBoost'')) \<and>
         ((shap res \<noteq> None) = (method_of method = ''CatBoost'')) \<and>
         ((extra res \<noteq> None) =
            (method_of method = ''Beneish M-Score'' \<or> method_of method = ''Piotroski F-Score'')) \<and>
         (\<exists>df2. two_years env tkr = Inr (Some df2) \<and> ratios df2 = Inr (feats res)) \<and>
         predict env tkr (Some ''Beneish M-Score'') =
           Inr (Some \<lparr> prob = None, shap = None, feats = feats res,
                  extra = Some (MScore (fst (beneish_score (feats res)))
                                       (snd (beneish_score (feats res)))) \<rparr>) \<and>
         predict env tkr (Some ''Piotroski F-Score'') =
           Inr (Some \<lparr> prob = None, shap = None, feats = feats res,
                  extra = Some (FScore (fst (piotroski_score (feats res)))
                                       (snd (piotroski_score (feats res)))) \<rparr>) \<and>
         (\<forall>p s. predict_proba env (feats res) = Inr p \<and> tree_explainer env (feats res) = Inr s
            \<longrightarrow> predict env tkr (Some ''CatBoost'') =
                  Inr (Some \<lparr> prob = Some p, shap = Some s, feats = feats res,
                         extra = None \<rparr>))"
proof -
  obtain df2 fv where ty: "two_years env tkr = Inr (Some df2)" and ra: "ratios df2 = Inr fv"
    and cases: "(method_of method = ''CatBoost'' \<and>
         (\<exists>p s. res = \<lparr> prob = Some p, shap = Some s, feats = fv, extra = None \<rparr>)) \<or>
      (method_of method = ''Beneish M-Score'' \<and>
         (\<exists>m flag. res = \<lparr> prob = None, shap = None, feats = fv,
                             extra = Some (MScore m flag) \<rparr>)) \<or>
      (method_of method = ''Piotroski F-Score'' \<and>
         (\<exists>n flag. res = \<lparr> prob = None, shap = None, feats = fv,
                             extra = Some (FScore n flag) \<rparr>))"
    using predict_Some_cases [OF assms] by blast
  have fv: "feats res = fv"
    using cases by auto
  have shape: "((prob res \<noteq> None) = (method_of method = ''CatBoost'')) \<and>
         ((shap res \<noteq> None) = (method_of method = ''CatBoost'')) \<and>
         ((extra res \<noteq> None) =
            (method_of method = ''Beneish M-Score'' \<or> method_of method = ''Piotroski F-Score''))"
    using cases by auto
  have cls: "predict env tkr (Some ''CatBoost'') =
      Inr (Some \<lparr> prob = Some p, shap = Some s, feats = fv, extra = None \<rparr>)"
    if "predict_proba env fv = Inr p \<and> tree_explainer env fv = Inr s" for p s
    using that predict_classifier [OF ty ra] by blast
  show ?thesis
    using shape ty ra predict_rule_methods [OF ty ra] cls unfolding fv [symmetric] by blast
qed

text \<open>
  Claim C8 at the scenario's company: the call without a method returns the
  classifier's answer and no extra payload, the two rule methods return the M-Score
  with its flag and the F-Score 8 with its flag, and no probability or attribution.
\<close>

theorem predict_result_shape_witness:
  "predict sample_env ''ACME'' None =
     Inr (Some \<lparr> prob = Some (FNum (1 / 4)), shap = Some [], feats = scenario_features,
            extra = None \<rparr>) \<and>
   predict sample_env ''ACME'' (Some ''CatBoost'') =
     Inr (Some \<lparr> prob = Some (FNum (1 / 4)), shap = Some [], feats = scenario_features,
            extra = None \<rparr>) \<and>
   predict sample_env ''ACME'' (Some ''Beneish M-Score'') =
     Inr (Some \<lparr> prob = None, shap = None, feats = scenario_features,
            extra = Some (MScore (FNum (- (2686277239 / 1989000000))) True) \<rparr>) \<and>
   predict sample_env ''ACME'' (Some ''Piotroski F-Score'') =
     Inr (Some \<lparr> prob = None, shap = None, feats = scenario_features,
            extra = Some (FScore 8 False) \<rparr>)"
proof -
  let ?res = "\<lparr> prob = Some (FNum (1 / 4)), shap = Some ([] :: pyfloat list),
                 feats = scenario_features, extra = None \<rparr>"
  have h: "predict sample_env ''ACME'' None = Inr (Some ?res)"
    by code_simp
  have cl: "predict_proba sample_env (feats ?res) = Inr (FNum (1 / 4)) \<and>
      tree_explainer sample_env (feats ?res) = Inr []"
    by (simp add: sample_env_def)
  note t = predict_result_shape [OF h]
  have b: "predict sample_env ''ACME'' (Some ''Beneish M-Score'') =
      Inr (Some \<lparr> prob = None, shap = None, feats = feats ?res,
             extra = Some (MScore (fst (beneish_score (feats ?res)))
                                  (snd (beneish_score (feats ?res)))) \<rparr>)"
    using t by blast
  have p: "predict sample_env ''ACME'' (Some ''Piotroski F-Score'') =
      Inr (Some \<lparr> prob = None, shap = None, feats = feats ?res,
             extra = Some (FScore (fst (piotroski_score (feats ?res)))
                                  (snd (piotroski_score (feats ?res)))) \<rparr>)"
    using t by blast
  have c: "predict sample_env ''ACME'' (Some ''CatBoost'') =
      Inr (Some \<lparr> prob = Some (FNum (1 / 4)), shap = Some [], feats = feats ?res,
             extra = None \<rparr>)"
    using t cl by blast
  show ?thesis
    using h b p c by (simp add: beneish_scenario piotroski_scenario)
qed

lemma two_years_acme:
  "two_years sample_env ''ACME'' =
     Inr (Some (tail 2 (fillna0 (sort_values_date
       (concat_dedup acme_income acme_balance acme_cash_flow)))))"
proof -
  have "length acme_income = 2" "length acme_balance = 2" "length acme_cash_flow = 2"
    by (simp_all add: acme_income_def acme_balance_def acme_cash_flow_def)
  then show ?thesis
    using two_years_fetched [OF sample_env_acme] by auto
qed

text \<open>
  Claim C9: for a ticker with two fiscal years and a method that is none of the three
  recognised ones, \<^verbatim>\<open>predict\<close> raises: the \<^verbatim>\<open>ValueError\<close> of its last branch, or
  before that the exception of the Ratio Engine if the engine raises. It returns no
  result.
\<close>

theorem predict_unknown_method_raises:
  assumes "two_years env tkr = Inr (Some df2)"
      and "m \<noteq> ''CatBoost''" and "m \<noteq> ''Beneish M-Score''" and "m \<noteq> ''Piotroski F-Score''"
  shows "predict env tkr (Some m) =
           (case ratios df2 of Inl e \<Rightarrow> Inl e | Inr fv \<Rightarrow> Inl (ValueError ''Unknown method'')) \<and>
         (\<exists>e. predict env tkr (Some m) = Inl e)"
  using assms
  by (auto simp: predict_def predict_with_def bind_def Let_def split: sum.splits)

text \<open>
  Claim C9 at the scenario's company with the method \<^verbatim>\<open>"XGBoost"\<close>: the engine
  succeeds and the \<^verbatim>\<open>ValueError\<close> is raised.
\<close>

theorem predict_unknown_method_raises_witness:
  "(\<exists>e. predict sample_env ''ACME'' (Some ''XGBoost'') = Inl e) \<and>
   predict sample_env ''ACME'' (Some ''XGBoost'') = Inl (ValueError ''Unknown method'')"
proof -
  have m: "''XGBoost'' \<noteq> ''CatBoost''" "''XGBoost'' \<noteq> ''Beneish M-Score''"
      "''XGBoost'' \<noteq> ''Piotroski F-Score''"
    by simp_all
  have "\<exists>e. predict sample_env ''ACME'' (Some ''XGBoost'') = Inl e"
    using predict_unknown_method_raises [OF two_years_acme m] by blast
  moreover have "predict sample_env ''ACME'' (Some ''XGBoost'') = Inl (ValueError ''Unknown method'')"
    by code_simp
  ultimately show ?thesis by blast
qed

end
